theory Spec2Isabelle
  imports Complex_Main
begin

section \<open>Numeric values and the numpy operations the services use\<close>

text \<open>
  A float of the program is either a number or NaN. Numbers are modelled as reals:
  rounding and overflow to infinity are outside the model. NaN is kept, because the
  control flow of \<^verbatim>\<open>app.py\<close> depends on it: every arithmetic operation with
  a NaN operand is NaN and every ordering comparison with a NaN operand is False.
  A comparison of a computed value with a threshold can therefore differ from the
  program's where rounding moves the value across the threshold; the statements
  below are about shapes, NaN and the order of the rules, which rounding does not change.
\<close>

datatype npfloat = Num real | NaN

fun fadd :: "npfloat \<Rightarrow> npfloat \<Rightarrow> npfloat" where
  "fadd (Num a) (Num b) = Num (a + b)"
| "fadd _ _ = NaN"

fun fsub :: "npfloat \<Rightarrow> npfloat \<Rightarrow> npfloat" where
  "fsub (Num a) (Num b) = Num (a - b)"
| "fsub _ _ = NaN"

fun fmul :: "npfloat \<Rightarrow> npfloat \<Rightarrow> npfloat" where
  "fmul (Num a) (Num b) = Num (a * b)"
| "fmul _ _ = NaN"

text \<open>Division is only used with a divisor that is a positive scale or a non-zero count;
  \<open>0 / 0\<close> (the mean of an empty array) is NaN.\<close>

fun fdiv :: "npfloat \<Rightarrow> npfloat \<Rightarrow> npfloat" where
  "fdiv (Num a) (Num b) = (if b = 0 then NaN else Num (a / b))"
| "fdiv _ _ = NaN"

fun fneg :: "npfloat \<Rightarrow> npfloat" where
  "fneg (Num a) = Num (- a)"
| "fneg NaN = NaN"

fun fabs :: "npfloat \<Rightarrow> npfloat" where
  "fabs (Num a) = Num \<bar>a\<bar>"
| "fabs NaN = NaN"

fun fsq :: "npfloat \<Rightarrow> npfloat" where
  "fsq (Num a) = Num (a * a)"
| "fsq NaN = NaN"

fun fsqrt :: "npfloat \<Rightarrow> npfloat" where
  "fsqrt (Num a) = (if a < 0 then NaN else Num (sqrt a))"
| "fsqrt NaN = NaN"

fun fgt :: "npfloat \<Rightarrow> npfloat \<Rightarrow> bool" where
  "fgt (Num a) (Num b) = (b < a)"
| "fgt _ _ = False"

fun flt :: "npfloat \<Rightarrow> npfloat \<Rightarrow> bool" where
  "flt (Num a) (Num b) = (a < b)"
| "flt _ _ = False"

text \<open>\<^verbatim>\<open>np.maximum\<close> and \<^verbatim>\<open>np.minimum\<close>, which propagate NaN.\<close>

fun fmaximum :: "npfloat \<Rightarrow> npfloat \<Rightarrow> npfloat" where
  "fmaximum (Num a) (Num b) = Num (max a b)"
| "fmaximum _ _ = NaN"

fun fminimum :: "npfloat \<Rightarrow> npfloat \<Rightarrow> npfloat" where
  "fminimum (Num a) (Num b) = Num (min a b)"
| "fminimum _ _ = NaN"

text \<open>Python's builtin \<^verbatim>\<open>max(a, b)\<close> and \<^verbatim>\<open>min(a, b)\<close>: the first argument
  is kept unless the second compares strictly greater (smaller).\<close>

definition py_max :: "npfloat \<Rightarrow> npfloat \<Rightarrow> npfloat" where
  "py_max a b = (if fgt b a then b else a)"

definition py_min :: "npfloat \<Rightarrow> npfloat \<Rightarrow> npfloat" where
  "py_min a b = (if flt b a then b else a)"

text \<open>Exceptions. \<open>ValueError\<close> carries the message of the one \<^verbatim>\<open>raise\<close> of the
  source; the other constructors name the library call that raises.\<close>

datatype error =
    ValueError string
  | InhomogeneousShape
  | BroadcastMismatch nat nat
  | RaggedSequence
  | ZeroSizeReduction
  | IndexOutOfBounds
  | TextNotString

type_synonym point = "npfloat list"
type_synonym frame = "point list"
type_synonym feature = "npfloat list"
type_synonym tensor = "npfloat list list list"

text \<open>Reductions over the flattened array.\<close>

definition np_sum :: "npfloat list \<Rightarrow> npfloat" where
  "np_sum xs = foldl fadd (Num 0) xs"

definition np_mean :: "npfloat list \<Rightarrow> npfloat" where
  "np_mean xs = fdiv (np_sum xs) (Num (real (length xs)))"

definition np_var :: "npfloat list \<Rightarrow> npfloat" where
  "np_var xs = np_mean (map (\<lambda>x. fsq (fsub x (np_mean xs))) xs)"

definition np_std :: "npfloat list \<Rightarrow> npfloat" where
  "np_std xs = fsqrt (np_var xs)"

fun np_max :: "npfloat list \<Rightarrow> error + npfloat" where
  "np_max [] = Inl ZeroSizeReduction"
| "np_max (x # xs) = Inr (foldl fmaximum x xs)"

fun np_min :: "npfloat list \<Rightarrow> error + npfloat" where
  "np_min [] = Inl ZeroSizeReduction"
| "np_min (x # xs) = Inr (foldl fminimum x xs)"

text \<open>\<^verbatim>\<open>np.max(a) - np.min(a)\<close>.\<close>

definition np_range :: "npfloat list \<Rightarrow> error + npfloat" where
  "np_range xs =
     (case np_max xs of Inl e \<Rightarrow> Inl e
      | Inr mx \<Rightarrow> (case np_min xs of Inl e \<Rightarrow> Inl e | Inr mn \<Rightarrow> Inr (fsub mx mn)))"

text \<open>Arrays are nested lists. \<open>ncols\<close> is the length of the second axis of a
  two-dimensional array, \<open>shape1\<close> and \<open>shape2\<close> are \<^verbatim>\<open>a.shape[1]\<close> and
  \<^verbatim>\<open>a.shape[2]\<close> of a three-dimensional one.\<close>

definition ncols :: "'a list list \<Rightarrow> nat" where
  "ncols m = (case m of [] \<Rightarrow> 0 | r # _ \<Rightarrow> length r)"

definition shape1 :: "'a list list list \<Rightarrow> nat" where
  "shape1 t = (case t of [] \<Rightarrow> 0 | m # _ \<Rightarrow> length m)"

definition shape2 :: "'a list list list \<Rightarrow> nat" where
  "shape2 t = (case t of [] \<Rightarrow> 0 | m # _ \<Rightarrow> ncols m)"

text \<open>\<^verbatim>\<open>f(m, axis=0)\<close> on a two-dimensional array: one value per column.\<close>

definition axis0_reduce :: "(npfloat list \<Rightarrow> npfloat) \<Rightarrow> npfloat list list \<Rightarrow> npfloat list" where
  "axis0_reduce f m = map (\<lambda>j. f (map (\<lambda>r. r ! j) m)) [0..<ncols m]"

text \<open>\<^verbatim>\<open>f(t, axis=1)\<close> on a three-dimensional array.\<close>

definition axis1_reduce :: "(npfloat list \<Rightarrow> npfloat) \<Rightarrow> tensor \<Rightarrow> npfloat list list" where
  "axis1_reduce f t = map (axis0_reduce f) t"

text \<open>\<^verbatim>\<open>np.diff(t, axis=0)\<close>: \<^verbatim>\<open>t[1:] - t[:-1]\<close>.\<close>

definition np_diff0 :: "tensor \<Rightarrow> tensor" where
  "np_diff0 t = map (\<lambda>(b, a). map (\<lambda>(rb, ra). map (\<lambda>(x, y). fsub x y) (zip rb ra)) (zip b a)) (zip (tl t) t)"

text \<open>\<^verbatim>\<open>np.diff(r)\<close> along the last axis of one row.\<close>

definition np_diff_row :: "npfloat list \<Rightarrow> npfloat list" where
  "np_diff_row r = map (\<lambda>(x, y). fsub x y) (zip (tl r) r)"

text \<open>\<^verbatim>\<open>np.linalg.norm(t, axis=2)\<close>.\<close>

definition norm_axis2 :: "tensor \<Rightarrow> npfloat list list" where
  "norm_axis2 t = map (map (\<lambda>v. fsqrt (np_sum (map fsq v)))) t"

text \<open>\<^verbatim>\<open>t[:, :, j]\<close>: IndexError when the last axis is too short.\<close>

definition take_coord :: "nat \<Rightarrow> tensor \<Rightarrow> error + npfloat list list" where
  "take_coord j t = (if j < shape2 t then Inr (map (map (\<lambda>p. p ! j)) t) else Inl IndexOutOfBounds)"

text \<open>Elementwise subtraction of two one-dimensional arrays, with numpy's broadcasting:
  the lengths agree, or one of them is 1.\<close>

definition np_sub1 :: "npfloat list \<Rightarrow> npfloat list \<Rightarrow> error + npfloat list" where
  "np_sub1 xs ys =
     (if length xs = length ys then Inr (map (\<lambda>(x, y). fsub x y) (zip xs ys))
      else if length xs = 1 then Inr (map (\<lambda>y. fsub (xs ! 0) y) ys)
      else if length ys = 1 then Inr (map (\<lambda>x. fsub x (ys ! 0)) xs)
      else Inl (BroadcastMismatch (length xs) (length ys)))"

text \<open>\<^verbatim>\<open>np.array(rows)\<close> on a non-empty list of float lists: a two-dimensional array,
  or ValueError (inhomogeneous shape) when the rows differ in length (numpy 1.24 and
  later; earlier versions warn and build an array of objects).\<close>

definition np_array2 :: "point list \<Rightarrow> error + npfloat list list" where
  "np_array2 rows =
     (if list_all (\<lambda>r. length r = ncols rows) rows then Inr rows else Inl InhomogeneousShape)"

text \<open>\<^verbatim>\<open>torch.tensor(rows, dtype=torch.float32)\<close> on a list of one-dimensional arrays:
  every row has to have the length of the first.\<close>

definition torch_tensor :: "feature list \<Rightarrow> error + npfloat list list" where
  "torch_tensor rows =
     (if list_all (\<lambda>r. length r = ncols rows) rows then Inr rows else Inl RaggedSequence)"

section \<open>\<^verbatim>\<open>app.py\<close>: preprocessing\<close>

definition lip_indices :: "nat list" where
  "lip_indices =
     [61, 84, 17, 314, 405, 320, 307, 375, 321, 308, 324, 318,
      78, 95, 88, 178, 87, 14, 317, 402, 318, 324, 308,
      13, 82, 81, 80, 310, 311, 312]"

text \<open>\<^verbatim>\<open>list(set([i for i in lip_indices if i < 468]))\<close>: the distinct indices
  below 468, in the order in which CPython iterates over the set built from the list
  (small integers hash to themselves). That the list holds exactly these indices, once
  each, is proved below (\<open>valid_lip_indices_set\<close>).\<close>

definition valid_lip_indices :: "nat list" where
  "valid_lip_indices =
     [13, 14, 17, 402, 405, 178, 307, 308, 310, 311, 312, 314, 317, 61, 318, 320, 321, 324,
      78, 80, 81, 82, 84, 87, 88, 95, 375]"

text \<open>Centring on the mouth centre and scaling by the standard deviation of all
  coordinates (left unscaled unless the deviation compares greater than 0).\<close>

definition normalize_lip_array :: "npfloat list list \<Rightarrow> npfloat list list" where
  "normalize_lip_array lip_array =
     (let mouth_center = axis0_reduce np_mean lip_array;
          centered = map (\<lambda>r. map (\<lambda>(x, c). fsub x c) (zip r mouth_center)) lip_array;
          lip_scale = np_std (concat centered)
      in if fgt lip_scale (Num 0) then map (map (\<lambda>x. fdiv x lip_scale)) centered else centered)"

text \<open>The body of the loop over the frames; \<open>processed_frames\<close> is threaded through.\<close>

definition process_frame :: "frame \<Rightarrow> feature list \<Rightarrow> error + feature list" where
  "process_frame frame_landmarks processed_frames =
     (if 468 \<le> length frame_landmarks then
        (let lip_landmarks =
               map (\<lambda>i. frame_landmarks ! i)
                 (filter (\<lambda>i. i < length frame_landmarks) valid_lip_indices)
         in if 0 < length lip_landmarks then
              (case np_array2 lip_landmarks of
                 Inl e \<Rightarrow> Inl e
               | Inr lip_array \<Rightarrow>
                   (let flat = concat (normalize_lip_array lip_array)
                    in if 0 < length processed_frames then
                         (case np_sub1 flat (last processed_frames) of
                            Inl e \<Rightarrow> Inl e
                          | Inr movement \<Rightarrow> Inr (processed_frames @ [flat @ movement]))
                       else Inr (processed_frames @ [flat])))
            else Inr processed_frames)
      else Inr processed_frames)"

fun process_frames :: "frame list \<Rightarrow> feature list \<Rightarrow> error + feature list" where
  "process_frames [] processed_frames = Inr processed_frames"
| "process_frames (f # fs) processed_frames =
     (case process_frame f processed_frames of
        Inl e \<Rightarrow> Inl e
      | Inr processed_frames' \<Rightarrow> process_frames fs processed_frames')"

definition max_frames :: nat where
  "max_frames = 50"

text \<open>\<^verbatim>\<open>while len(processed_frames) < max_frames:
    processed_frames.append(np.zeros_like(processed_frames[0]))\<close>\<close>

function pad_frames :: "feature list \<Rightarrow> feature list" where
  "pad_frames processed_frames =
     (if length processed_frames < max_frames
      then pad_frames (processed_frames @ [map (\<lambda>_. Num 0) (processed_frames ! 0)])
      else processed_frames)"
  by pat_completeness auto
termination
  by (relation "measure (\<lambda>pfs. max_frames - length pfs)") auto

declare pad_frames.simps [simp del]

definition fix_length :: "feature list \<Rightarrow> feature list" where
  "fix_length processed_frames =
     (if max_frames < length processed_frames then take max_frames processed_frames
      else pad_frames processed_frames)"

definition preprocess_landmarks :: "frame list \<Rightarrow> error + tensor" where
  "preprocess_landmarks landmarks_data =
     (case process_frames landmarks_data [] of
        Inl e \<Rightarrow> Inl e
      | Inr processed_frames \<Rightarrow>
          if processed_frames = [] then Inl (ValueError ''No valid lip landmarks found'')
          else (case torch_tensor (fix_length processed_frames) of
                  Inl e \<Rightarrow> Inl e
                | Inr tensor_data \<Rightarrow> Inr [tensor_data]))"

section \<open>\<^verbatim>\<open>app.py\<close>: metrics and confidence\<close>

definition movement_intensity :: "tensor \<Rightarrow> npfloat" where
  "movement_intensity landmarks_np = np_mean (concat (norm_axis2 (np_diff0 landmarks_np)))"

definition total_variance :: "tensor \<Rightarrow> npfloat" where
  "total_variance landmarks_np = np_mean (concat (axis1_reduce np_var landmarks_np))"

definition lip_opening_variance :: "tensor \<Rightarrow> npfloat" where
  "lip_opening_variance landmarks_np =
     (if 2 \<le> shape2 landmarks_np then np_var (concat (map (map (\<lambda>p. p ! 1)) landmarks_np))
      else Num 0)"

definition confidence_score :: "tensor \<Rightarrow> npfloat" where
  "confidence_score landmarks_np =
     fadd (fadd (fmul (total_variance landmarks_np) (Num 100))
                (fmul (movement_intensity landmarks_np) (Num 50)))
          (fmul (lip_opening_variance landmarks_np) (Num 200))"

definition calculate_confidence :: "tensor \<Rightarrow> npfloat" where
  "calculate_confidence landmarks_tensor =
     py_min (Num 1) (py_max (Num (1 / 10)) (confidence_score landmarks_tensor))"

section \<open>\<^verbatim>\<open>app.py\<close>: the heuristic classifier\<close>

text \<open>Phonemes are one-character strings throughout the source; a phoneme list is
  modelled as a list of characters, \<^verbatim>\<open>"H" in phonemes\<close> as membership and
  \<^verbatim>\<open>p in "AEIOU"\<close> as membership in the five vowels.\<close>

definition movement_patterns :: "tensor \<Rightarrow> npfloat list list" where
  "movement_patterns landmarks_np =
     axis1_reduce np_mean (map (map (map fabs)) (np_diff0 landmarks_np))"

definition vowel_rule :: "npfloat \<Rightarrow> npfloat \<Rightarrow> string" where
  "vowel_rule lip_opening_range lip_width_range =
     (if fgt lip_opening_range (Num (1 / 100)) then
        (if fgt lip_width_range (Num (8 / 1000)) then ''A'' else ''O'')
      else if fgt lip_opening_range (Num (8 / 1000)) then
        (if fgt lip_width_range (Num (5 / 1000)) then ''E'' else ''I'')
      else if fgt lip_opening_range (Num (5 / 1000)) then ''U''
      else [])"

definition labial_rule :: "npfloat \<Rightarrow> string" where
  "labial_rule lip_width_range = (if fgt lip_width_range (Num (1 / 100)) then ''MBP'' else [])"

definition rapid_movements :: "npfloat list list \<Rightarrow> nat" where
  "rapid_movements mp =
     length (filter (\<lambda>v. fgt v (fmul (np_mean (concat mp)) (Num (12 / 10)))) (concat mp))"

definition fricative_rule :: "npfloat list list \<Rightarrow> string" where
  "fricative_rule mp =
     (if real (length mp) * (2 / 10) < real (rapid_movements mp) then ''FV'' else [])"

definition movement_stops :: "npfloat list list \<Rightarrow> nat" where
  "movement_stops mp =
     length (filter (\<lambda>d. flt d (fmul (fneg (np_std (concat mp))) (Num (1 / 2))))
               (concat (map np_diff_row mp)))"

definition stop_rule :: "npfloat list list \<Rightarrow> string" where
  "stop_rule mp = (if 0 < movement_stops mp then ''TD'' else [])"

definition movement_rule :: "npfloat \<Rightarrow> npfloat \<Rightarrow> npfloat list list \<Rightarrow> string" where
  "movement_rule lip_opening_range lip_width_range mp =
     (if fgt (np_mean (concat mp)) (Num (1 / 100)) then
        (if fgt lip_opening_range (Num (1 / 100)) then ''H'' else []) @
        (if fgt lip_width_range (Num (1 / 100)) then ''L'' else [])
      else [])"

text \<open>The phonemes appended by the threshold rules, in the order of the source.\<close>

definition threshold_phonemes :: "npfloat \<Rightarrow> npfloat \<Rightarrow> npfloat list list \<Rightarrow> string" where
  "threshold_phonemes lip_opening_range lip_width_range mp =
     vowel_rule lip_opening_range lip_width_range @ labial_rule lip_width_range @
     fricative_rule mp @ stop_rule mp @ movement_rule lip_opening_range lip_width_range mp"

text \<open>The only calls of the \<^verbatim>\<open>try\<close> block that can raise are \<^verbatim>\<open>np.max\<close> and
  \<^verbatim>\<open>np.min\<close> (on an empty array); the handler returns the default list.\<close>

definition detect_phonemes :: "tensor \<Rightarrow> npfloat list list \<Rightarrow> npfloat list list \<Rightarrow> string" where
  "detect_phonemes landmarks_np x_coords y_coords =
     (case np_range (concat y_coords) of
        Inl e \<Rightarrow> ''HELLO''
      | Inr lip_opening_range \<Rightarrow>
          (case np_range (concat x_coords) of
             Inl e \<Rightarrow> ''HELLO''
           | Inr lip_width_range \<Rightarrow>
               (let phonemes =
                      threshold_phonemes lip_opening_range lip_width_range
                        (movement_patterns landmarks_np)
                in if phonemes = [] then
                     (if fgt lip_opening_range (Num (1 / 1000)) then ''H''
                      else if fgt lip_width_range (Num (1 / 1000)) then ''M''
                      else ''A'')
                   else phonemes)))"

section \<open>\<^verbatim>\<open>app.py\<close>: text synthesis\<close>

text \<open>The result is \<open>None\<close> where the source falls off the end of the
  \<^verbatim>\<open>elif len(phonemes) == 1\<close> branch without a \<^verbatim>\<open>return\<close>. No call of the
  \<^verbatim>\<open>try\<close> block raises, so its handler is not modelled. \<open>intensity\<close> and
  \<open>opening_variance\<close> are the parameters \<^verbatim>\<open>movement_intensity\<close> and
  \<^verbatim>\<open>lip_opening_variance\<close>; the source does not use the latter either.\<close>

definition phonemes_to_text :: "string \<Rightarrow> npfloat \<Rightarrow> npfloat \<Rightarrow> string option" where
  "phonemes_to_text phonemes intensity opening_variance =
     (let has = (\<lambda>c. c \<in> set phonemes) in
      if phonemes = [] then Some ''No speech detected''
      else if has CHR ''H'' \<and> has CHR ''E'' \<and> has CHR ''L'' then
        (if fgt intensity (Num (15 / 1000)) then Some ''Hello world'' else Some ''Hello'')
      else if has CHR ''H'' \<and> has CHR ''I'' then Some ''Hi''
      else if has CHR ''G'' \<and> has CHR ''O'' \<and> has CHR ''D'' then Some ''Good''
      else if has CHR ''T'' \<and> has CHR ''H'' \<and> has CHR ''A'' \<and> has CHR ''N'' then Some ''Thank you''
      else if has CHR ''Y'' \<and> has CHR ''E'' \<and> has CHR ''S'' then Some ''Yes''
      else if has CHR ''N'' \<and> has CHR ''O'' then Some ''No''
      else if has CHR ''B'' \<and> has CHR ''Y'' then Some ''Bye''
      else if has CHR ''P'' \<and> has CHR ''L'' \<and> has CHR ''E'' then Some ''Please''
      else if has CHR ''S'' \<and> has CHR ''O'' \<and> has CHR ''R'' then Some ''Sorry''
      else if length phonemes = 1 then
        (if has CHR ''A'' then Some ''Ah''
         else if has CHR ''E'' then Some ''Eh''
         else if has CHR ''I'' then Some ''Ee''
         else if has CHR ''O'' then Some ''Oh''
         else if has CHR ''U'' then Some ''Oo''
         else None)
      else if 2 \<le> length (filter (\<lambda>p. p \<in> set ''AEIOU'') phonemes) then
        (if fgt intensity (Num (2 / 100)) then Some ''Hello world''
         else if fgt intensity (Num (15 / 1000)) then Some ''Hello''
         else Some ''Hi'')
      else if 2 \<le> length (filter (\<lambda>p. p \<notin> set ''AEIOU'') phonemes) then
        (if has CHR ''M'' \<or> has CHR ''B'' \<or> has CHR ''P'' then Some ''Good''
         else if has CHR ''T'' \<or> has CHR ''D'' then Some ''Thank you''
         else Some ''Yes'')
      else if fgt intensity (Num (2 / 100)) \<and> 3 < length phonemes then Some ''Hello world''
      else if fgt intensity (Num (15 / 1000)) \<and> 2 < length phonemes then Some ''Hello''
      else if fgt intensity (Num (1 / 100)) then Some ''Hi''
      else Some ''Ah'')"

text \<open>The variances, the shape changes and the frequency power that the source also
  computes here are only logged; none of those calls raises. An IndexError of the
  coordinate slices is caught by the handler of the function.\<close>

definition analyze_lip_patterns :: "tensor \<Rightarrow> string option" where
  "analyze_lip_patterns landmarks_np =
     (if 0 < shape1 landmarks_np then
        (case take_coord 0 landmarks_np of
           Inl e \<Rightarrow> Some ''Error in analysis''
         | Inr x_coords \<Rightarrow>
             (case take_coord 1 landmarks_np of
                Inl e \<Rightarrow> Some ''Error in analysis''
              | Inr y_coords \<Rightarrow>
                  phonemes_to_text (detect_phonemes landmarks_np x_coords y_coords)
                    (movement_intensity landmarks_np) (np_var (concat y_coords))))
      else Some ''No speech detected'')"

section \<open>\<^verbatim>\<open>app.py\<close>: process state and the request handler\<close>

text \<open>The two process-wide handles, and the library calls of the model-backed branch
  (the forward pass with the extraction of the logits, and the decoding of their argmax),
  taken as parameters.\<close>

typedecl torch_model
typedecl hf_tokenizer
typedecl logits

record globals =
  model :: "torch_model option"
  tokenizer :: "hf_tokenizer option"

record library =
  forward :: "torch_model \<Rightarrow> tensor \<Rightarrow> error + logits"
  decode :: "hf_tokenizer \<Rightarrow> logits \<Rightarrow> error + string"

definition initial_globals :: globals where
  "initial_globals = \<lparr>model = None, tokenizer = None\<rparr>"

text \<open>\<open>fetched\<close> is what \<^verbatim>\<open>AutoTokenizer.from_pretrained\<close> returned, \<open>None\<close> when it
  raised.\<close>

definition load_model :: "hf_tokenizer option \<Rightarrow> globals \<Rightarrow> globals" where
  "load_model fetched g =
     (case fetched of
        Some tok \<Rightarrow> g\<lparr>tokenizer := Some tok, model := None\<rparr>
      | None \<Rightarrow> g\<lparr>model := None, tokenizer := None\<rparr>)"

definition predict_text :: "library \<Rightarrow> globals \<Rightarrow> tensor \<Rightarrow> string option" where
  "predict_text lib g landmarks_tensor =
     (case model g of
        None \<Rightarrow> analyze_lip_patterns landmarks_tensor
      | Some m \<Rightarrow>
          (case forward lib m landmarks_tensor of
             Inl e \<Rightarrow> analyze_lip_patterns landmarks_tensor
           | Inr lg \<Rightarrow>
               (case tokenizer g of
                  Some tok \<Rightarrow>
                    (case decode lib tok lg of
                       Inl e \<Rightarrow> analyze_lip_patterns landmarks_tensor
                     | Inr s \<Rightarrow> Some s)
                | None \<Rightarrow> Some ''Hello world, this is a test.'')))"

text \<open>The two readings of \<^verbatim>\<open>time.time()\<close> of a request.\<close>

record clock =
  start_time :: real
  end_time :: real

text \<open>\<open>ErrorText e\<close> is the text \<^verbatim>\<open>f"Error processing landmarks: {str(e)}"\<close>.\<close>

datatype reply_text = Phrase string | ErrorText error

record LipReadResponse =
  reply :: reply_text
  confidence :: npfloat
  processing_time :: real

definition error_response :: "clock \<Rightarrow> error \<Rightarrow> LipReadResponse" where
  "error_response clk e =
     \<lparr>reply = ErrorText e, confidence = Num 0, processing_time = end_time clk - start_time clk\<rparr>"

text \<open>The response model declares \<^verbatim>\<open>text: str\<close>: constructing it with the \<open>None\<close>
  of \<open>phonemes_to_text\<close> raises a validation error inside the \<^verbatim>\<open>try\<close> block.\<close>

definition predict_lip_reading :: "library \<Rightarrow> globals \<Rightarrow> clock \<Rightarrow> frame list \<Rightarrow> LipReadResponse" where
  "predict_lip_reading lib g clk landmarks =
     (case preprocess_landmarks landmarks of
        Inl e \<Rightarrow> error_response clk e
      | Inr landmarks_tensor \<Rightarrow>
          (let predicted_text = predict_text lib g landmarks_tensor;
               conf = calculate_confidence landmarks_tensor
           in case predicted_text of
                None \<Rightarrow> error_response clk TextNotString
              | Some s \<Rightarrow>
                  \<lparr>reply = Phrase s, confidence = conf,
                   processing_time = end_time clk - start_time clk\<rparr>))"

section \<open>\<^verbatim>\<open>app_lightweight.py\<close>\<close>

definition lip_landmarks_indices :: "nat list" where
  "lip_landmarks_indices =
     [61, 84, 17, 314, 405, 320, 307, 375, 321, 308, 324, 318,
      13, 82, 81, 80, 78, 95, 88, 178, 87, 14, 317, 402, 318, 324, 308, 415, 310, 311, 312,
      269, 270, 267, 271, 272, 407, 408, 409, 410, 415, 310, 311, 312, 13, 82, 81, 80, 78, 95, 88]"

text \<open>\<^verbatim>\<open>np.array(landmarks_data)\<close> on a non-empty list of frames: ValueError
  (inhomogeneous shape) unless all frames have the same number of points and all points
  the same number of coordinates.\<close>

definition np_array3 :: "frame list \<Rightarrow> error + tensor" where
  "np_array3 frames =
     (if list_all (\<lambda>f. length f = shape1 frames) frames \<and>
         list_all (list_all (\<lambda>p. length p = shape2 frames)) frames
      then Inr frames else Inl InhomogeneousShape)"

text \<open>\<^verbatim>\<open>np.diff(m, axis=0)\<close> on a two-dimensional array.\<close>

definition np_diff0_2d :: "npfloat list list \<Rightarrow> npfloat list list" where
  "np_diff0_2d m = map (\<lambda>(b, a). map (\<lambda>(x, y). fsub x y) (zip b a)) (zip (tl m) m)"

text \<open>The dictionary of metrics, one field per key.\<close>

record movement_metrics =
  m_total_variance :: npfloat
  m_frame_variance :: "npfloat list list"
  m_avg_frame_variance :: npfloat
  m_movement_intensity :: npfloat
  m_max_movement :: npfloat
  m_movement_consistency :: npfloat
  m_lip_opening_variance :: npfloat
  m_lip_opening_range :: npfloat
  m_opening_frequency :: npfloat
  m_horizontal_variance :: npfloat
  m_horizontal_range :: npfloat

text \<open>Movement intensity, maximal movement and movement consistency.\<close>

definition temporal_metrics :: "tensor \<Rightarrow> error + npfloat \<times> npfloat \<times> npfloat" where
  "temporal_metrics lip_landmarks =
     (if 1 < length lip_landmarks then
        (let norms = concat (norm_axis2 (np_diff0 lip_landmarks))
         in case np_max norms of
              Inl e \<Rightarrow> Inl e
            | Inr mx \<Rightarrow> Inr (np_mean norms, mx, np_std norms))
      else Inr (Num 0, Num 0, Num 0))"

text \<open>Lip opening variance, range and frequency.\<close>

definition opening_metrics :: "tensor \<Rightarrow> error + npfloat \<times> npfloat \<times> npfloat" where
  "opening_metrics lip_landmarks =
     (if 2 \<le> shape2 lip_landmarks then
        (let y_coords = map (map (\<lambda>p. p ! 1)) lip_landmarks
         in case np_range (concat y_coords) of
              Inl e \<Rightarrow> Inl e
            | Inr rng \<Rightarrow>
                Inr (np_var (concat y_coords), rng,
                     if 2 < length lip_landmarks
                     then np_mean (map fabs (concat (np_diff0_2d y_coords)))
                     else Num 0))
      else Inr (Num 0, Num 0, Num 0))"

text \<open>Horizontal variance and range.\<close>

definition horizontal_metrics :: "tensor \<Rightarrow> error + npfloat \<times> npfloat" where
  "horizontal_metrics lip_landmarks =
     (if 1 \<le> shape2 lip_landmarks then
        (let x_coords = map (map (\<lambda>p. p ! 0)) lip_landmarks
         in case np_range (concat x_coords) of
              Inl e \<Rightarrow> Inl e
            | Inr rng \<Rightarrow> Inr (np_var (concat x_coords), rng))
      else Inr (Num 0, Num 0))"

definition calculate_movement_metrics :: "tensor \<Rightarrow> error + movement_metrics" where
  "calculate_movement_metrics lip_landmarks =
     (case temporal_metrics lip_landmarks of
        Inl e \<Rightarrow> Inl e
      | Inr (intensity, max_movement, consistency) \<Rightarrow>
          (case opening_metrics lip_landmarks of
             Inl e \<Rightarrow> Inl e
           | Inr (opening_variance, opening_range, opening_frequency) \<Rightarrow>
               (case horizontal_metrics lip_landmarks of
                  Inl e \<Rightarrow> Inl e
                | Inr (horizontal_variance, horizontal_range) \<Rightarrow>
                    Inr \<lparr>m_total_variance = np_var (concat (concat lip_landmarks)),
                         m_frame_variance = axis1_reduce np_var lip_landmarks,
                         m_avg_frame_variance =
                           np_mean (concat (axis1_reduce np_var lip_landmarks)),
                         m_movement_intensity = intensity,
                         m_max_movement = max_movement,
                         m_movement_consistency = consistency,
                         m_lip_opening_variance = opening_variance,
                         m_lip_opening_range = opening_range,
                         m_opening_frequency = opening_frequency,
                         m_horizontal_variance = horizontal_variance,
                         m_horizontal_range = horizontal_range\<rparr>)))"

definition recognize_speech_pattern :: "movement_metrics \<Rightarrow> string" where
  "recognize_speech_pattern metrics =
     (if fgt (m_movement_intensity metrics) (Num (5 / 1000)) \<and>
         fgt (m_lip_opening_variance metrics) (Num (2 / 1000)) \<and>
         fgt (m_opening_frequency metrics) (Num (1 / 1000)) then
        (if fgt (m_movement_consistency metrics) (Num (1 / 1000))
         then ''Hello world, this is a test.'' else ''Hello world'')
      else if fgt (m_movement_intensity metrics) (Num (2 / 1000)) \<and>
              fgt (m_lip_opening_variance metrics) (Num (1 / 1000)) then
        (if fgt (m_opening_frequency metrics) (Num (5 / 10000))
         then ''Hello world'' else ''Hello'')
      else if fgt (m_movement_intensity metrics) (Num (5 / 10000)) \<and>
              fgt (m_lip_opening_variance metrics) (Num (3 / 10000)) then ''Hello''
      else if fgt (m_total_variance metrics) (Num (1 / 10000)) then ''Hi''
      else ''No speech detected'')"

definition analyze_fallback_patterns :: "tensor \<Rightarrow> string" where
  "analyze_fallback_patterns landmarks_array =
     (let whole_variance = np_var (concat (concat landmarks_array));
          avg_frame_variance = np_mean (concat (axis1_reduce np_var landmarks_array))
      in if fgt whole_variance (Num (2 / 1000)) then ''Hello world, this is a test.''
         else if fgt avg_frame_variance (Num (1 / 1000)) then ''Hello world''
         else if fgt whole_variance (Num (5 / 10000)) then ''Hello''
         else ''Hi'')"

text \<open>Every exception of the body is caught and replaced by the fixed sentence.\<close>

definition analyze_lip_movement :: "frame list \<Rightarrow> string" where
  "analyze_lip_movement landmarks_data =
     (if landmarks_data = [] then ''No movement detected''
      else
        (case np_array3 landmarks_data of
           Inl e \<Rightarrow> ''Hello world, this is a test.''
         | Inr landmarks_array \<Rightarrow>
             (let lip_idx = filter (\<lambda>i. i < shape1 landmarks_array) lip_landmarks_indices
              in if length lip_idx = 0 then analyze_fallback_patterns landmarks_array
                 else
                   (case calculate_movement_metrics
                           (map (\<lambda>fr. map (\<lambda>i. fr ! i) lip_idx) landmarks_array) of
                      Inl e \<Rightarrow> ''Hello world, this is a test.''
                    | Inr metrics \<Rightarrow> recognize_speech_pattern metrics))))"

text \<open>The handler of the lightweight service; \<open>analyze_lip_movement\<close> raises nothing,
  so the branch that answers with status 500 is never taken.\<close>

definition lw_predict_lip_reading :: "clock \<Rightarrow> frame list \<Rightarrow> LipReadResponse" where
  "lw_predict_lip_reading clk landmarks =
     \<lparr>reply = Phrase (analyze_lip_movement landmarks), confidence = Num (75 / 100),
      processing_time = end_time clk - start_time clk\<rparr>"

section \<open>Notions used by the statements\<close>

text \<open>A frame takes the lip path of \<^verbatim>\<open>app.py\<close> when it has the full mesh.\<close>

definition full_mesh :: "frame \<Rightarrow> bool" where
  "full_mesh f = (468 \<le> length f)"


text \<open>The process states of \<^verbatim>\<open>app.py\<close>: the module is loaded with both handles
  \<open>None\<close>, and \<open>load_model\<close> is the only function that assigns them.\<close>

inductive reachable :: "globals \<Rightarrow> bool" where
  start: "reachable initial_globals"
| load: "reachable g \<Longrightarrow> reachable (load_model fetched g)"

text \<open>A response of the success branch of a handler.\<close>

fun is_phrase :: "reply_text \<Rightarrow> bool" where
  "is_phrase (Phrase s) = True"
| "is_phrase (ErrorText e) = False"

text \<open>Sample inputs: a full mesh of points at the origin, a mesh one point short, a full
  mesh of points without coordinates, a library whose calls all fail, and a clock.\<close>

definition zero_frame :: frame where
  "zero_frame = replicate 468 [Num 0, Num 0, Num 0]"

definition short_frame :: frame where
  "short_frame = replicate 467 [Num 0, Num 0, Num 0]"

definition bare_frame :: frame where
  "bare_frame = replicate 468 []"

definition no_library :: library where
  "no_library = \<lparr>forward = (\<lambda>m t. Inl IndexOutOfBounds), decode = (\<lambda>k l. Inl IndexOutOfBounds)\<rparr>"

definition sample_clock :: clock where
  "sample_clock = \<lparr>start_time = 0, end_time = 1\<rparr>"

section \<open>Basic facts about the numeric operations\<close>

lemma valid_lip_indices_set:
  "set valid_lip_indices = set (filter (\<lambda>i. i < 468) lip_indices)"
  "distinct valid_lip_indices"
  by (simp_all add: valid_lip_indices_def lip_indices_def) auto

lemma length_valid_lip_indices: "length valid_lip_indices = 27"
  by (simp add: valid_lip_indices_def)

lemma valid_lip_indices_bound: "i \<in> set valid_lip_indices \<Longrightarrow> i < 468"
  by (auto simp add: valid_lip_indices_def)

lemma fadd_NaN_right [simp]: "fadd x NaN = NaN" by (cases x) simp_all
lemma fsub_NaN_right [simp]: "fsub x NaN = NaN" by (cases x) simp_all
lemma fmul_NaN_right [simp]: "fmul x NaN = NaN" by (cases x) simp_all
lemma fdiv_NaN_right [simp]: "fdiv x NaN = NaN" by (cases x) simp_all
lemma fgt_NaN_right [simp]: "fgt x NaN = False" by (cases x) simp_all
lemma flt_NaN_right [simp]: "flt x NaN = False" by (cases x) simp_all

lemma np_mean_Nil [simp]: "np_mean [] = NaN"
  by (simp add: np_mean_def np_sum_def)

lemma np_diff0_single [simp]: "np_diff0 [rows] = []"
  by (simp add: np_diff0_def)

lemma movement_intensity_single: "movement_intensity [rows] = NaN"
  by (simp add: movement_intensity_def norm_axis2_def)

lemma confidence_score_single: "confidence_score [rows] = NaN"
  by (simp add: confidence_score_def movement_intensity_single)

lemma calculate_confidence_single: "calculate_confidence [rows] = Num (1 / 10)"
  by (simp add: calculate_confidence_def confidence_score_single py_max_def py_min_def)

lemma clamp_value:
  "py_min (Num 1) (py_max (Num (1 / 10)) x) =
     (case x of NaN \<Rightarrow> Num (1 / 10)
      | Num r \<Rightarrow> if 1 / 10 < r then (if r < 1 then Num r else Num 1) else Num (1 / 10))"
  by (cases x) (simp_all add: py_max_def py_min_def)

lemma clamp_range:
  "\<exists>c. py_min (Num 1) (py_max (Num (1 / 10)) x) = Num c \<and> 1 / 10 \<le> c \<and> c \<le> 1"
proof (cases x)
  case (Num r)
  consider "1 / 10 < r" "r < 1" | "1 / 10 < r" "\<not> r < 1" | "\<not> 1 / 10 < r" by blast
  then show ?thesis
  proof cases
    case 1
    then have "py_min (Num 1) (py_max (Num (1 / 10)) x) = Num r \<and> 1 / 10 \<le> r \<and> r \<le> 1"
      using Num by (simp add: clamp_value)
    then show ?thesis by blast
  next
    case 2
    then have "py_min (Num 1) (py_max (Num (1 / 10)) x) = Num 1 \<and> 1 / 10 \<le> (1::real) \<and> (1::real) \<le> 1"
      using Num by (simp add: clamp_value)
    then show ?thesis by blast
  next
    case 3
    then have "py_min (Num 1) (py_max (Num (1 / 10)) x) = Num (1 / 10)
        \<and> 1 / 10 \<le> (1 / 10 :: real) \<and> (1 / 10 :: real) \<le> 1"
      using Num by (simp add: clamp_value)
    then show ?thesis by blast
  qed
next
  case NaN
  then have "py_min (Num 1) (py_max (Num (1 / 10)) x) = Num (1 / 10)
      \<and> 1 / 10 \<le> (1 / 10 :: real) \<and> (1 / 10 :: real) \<le> 1"
    by (simp add: clamp_value)
  then show ?thesis by blast
qed

lemma calculate_confidence_range:
  "\<exists>c. calculate_confidence t = Num c \<and> 1 / 10 \<le> c \<and> c \<le> 1"
  unfolding calculate_confidence_def by (rule clamp_range)

lemma preprocess_shape:
  assumes "preprocess_landmarks ls = Inr t"
  shows "\<exists>rows. t = [rows]"
  using assms by (auto simp add: preprocess_landmarks_def split: sum.splits if_splits)

section \<open>Padding, tensor construction and frames at the origin\<close>

lemma ncols_Cons [simp]: "ncols (r # rs) = length r" by (simp add: ncols_def)
lemma ncols_Nil [simp]: "ncols [] = 0" by (simp add: ncols_def)
lemma ncols_append: "pfs \<noteq> [] \<Longrightarrow> ncols (pfs @ ext) = ncols pfs"
  by (cases pfs) simp_all

lemma pad_frames_eq:
  "pfs \<noteq> [] \<Longrightarrow>
   pad_frames pfs = pfs @ replicate (max_frames - length pfs) (map (\<lambda>_. Num 0) (pfs ! 0))"
proof (induction pfs rule: pad_frames.induct)
  case (1 pfs)
  show ?case
  proof (cases "length pfs < max_frames")
    case True
    let ?z = "map (\<lambda>_. Num 0) (pfs ! 0)"
    have nth0: "(pfs @ [?z]) ! 0 = pfs ! 0" using "1.prems" by (simp add: nth_append)
    have "pad_frames pfs = pad_frames (pfs @ [?z])"
      using True by (subst pad_frames.simps) simp
    also have "\<dots> = (pfs @ [?z]) @ replicate (max_frames - length (pfs @ [?z])) ?z"
      using "1.IH" [OF True] nth0 by simp
    also have "\<dots> = pfs @ replicate (Suc (max_frames - Suc (length pfs))) ?z"
      by (simp add: replicate_app_Cons_same)
    also have "Suc (max_frames - Suc (length pfs)) = max_frames - length pfs"
      using True by simp
    finally show ?thesis .
  next
    case False
    then show ?thesis by (subst pad_frames.simps) simp
  qed
qed

lemma length_fix_length: "pfs \<noteq> [] \<Longrightarrow> length (fix_length pfs) = max_frames"
  by (simp add: fix_length_def pad_frames_eq)

lemma fix_length_nth:
  "pfs \<noteq> [] \<Longrightarrow> i < length pfs \<Longrightarrow> i < max_frames \<Longrightarrow> fix_length pfs ! i = pfs ! i"
  by (simp add: fix_length_def pad_frames_eq nth_append)

lemma torch_tensor_ragged:
  assumes "2 \<le> length rows" and "length (rows ! 1) \<noteq> length (rows ! 0)"
  shows "torch_tensor rows = Inl RaggedSequence"
proof -
  obtain a b rest where rows: "rows = a # b # rest"
    using assms(1) by (cases rows; cases "tl rows") auto
  with assms(2) show ?thesis by (simp add: torch_tensor_def)
qed

lemma fix_length_ragged:
  assumes "2 \<le> length pfs" and "length (pfs ! 1) \<noteq> length (pfs ! 0)"
  shows "torch_tensor (fix_length pfs) = Inl RaggedSequence"
proof -
  have ne: "pfs \<noteq> []" using assms(1) by auto
  have "2 \<le> length (fix_length pfs)"
    by (simp add: length_fix_length [OF ne] max_frames_def)
  moreover have "fix_length pfs ! 1 = pfs ! 1"
    using assms(1) by (intro fix_length_nth [OF ne]) (simp_all add: max_frames_def)
  moreover have "fix_length pfs ! 0 = pfs ! 0"
    using ne by (intro fix_length_nth [OF ne]) (simp_all add: max_frames_def)
  ultimately show ?thesis using assms(2) by (simp add: torch_tensor_ragged)
qed

lemma np_sum_zeros [simp]: "np_sum (replicate k (Num 0)) = Num 0"
  by (induction k) (simp_all add: np_sum_def)

lemma np_mean_zeros: "0 < k \<Longrightarrow> np_mean (replicate k (Num 0)) = Num 0"
  by (simp add: np_mean_def)

lemma np_var_zeros: "0 < k \<Longrightarrow> np_var (replicate k (Num 0)) = Num 0"
  by (simp add: np_var_def np_mean_zeros)

lemma concat_replicate_replicate:
  "concat (replicate n (replicate d x)) = replicate (n * d) x"
  by (induction n) (simp_all add: replicate_add)

lemma np_std_Nil [simp]: "np_std [] = NaN"
  by (simp add: np_std_def np_var_def)

lemma not_fgt_std_zeros: "\<not> fgt (np_std (replicate k (Num 0))) (Num 0)"
proof (cases "k = 0")
  case True
  then show ?thesis by simp
next
  case False
  then show ?thesis by (simp add: np_std_def np_var_zeros)
qed

lemma normalize_zeros:
  "normalize_lip_array (replicate n (replicate d (Num 0))) = replicate n (replicate d (Num 0))"
proof (cases "n = 0")
  case True
  then show ?thesis by (simp add: normalize_lip_array_def axis0_reduce_def)
next
  case False
  then have nc: "ncols (replicate n (replicate d (Num 0))) = d"
    by (cases n) simp_all
  have mc: "axis0_reduce np_mean (replicate n (replicate d (Num 0))) = replicate d (Num 0)"
  proof -
    have "map (\<lambda>j. np_mean (map (\<lambda>r. r ! j) (replicate n (replicate d (Num 0))))) [0..<d]
        = map (\<lambda>j. Num 0) [0..<d]"
      using False by (intro map_cong) (simp_all add: np_mean_zeros)
    then show ?thesis by (simp add: axis0_reduce_def nc map_replicate_const)
  qed
  have row: "map (\<lambda>(x, c). fsub x c) (zip (replicate d (Num 0)) (replicate d (Num 0)))
      = replicate d (Num 0)"
    by (simp add: zip_replicate)
  show ?thesis
    by (simp add: normalize_lip_array_def mc row Let_def concat_replicate_replicate
        not_fgt_std_zeros)
qed

lemma filter_valid_lip_indices:
  "468 \<le> n \<Longrightarrow> filter (\<lambda>i. i < n) valid_lip_indices = valid_lip_indices"
  using valid_lip_indices_bound by (fastforce simp add: filter_id_conv)

lemma valid_lip_indices_nonempty: "valid_lip_indices \<noteq> []"
  using length_valid_lip_indices by auto

lemma lip_landmarks_replicate:
  assumes "468 \<le> n"
  shows "map ((!) (replicate n p)) valid_lip_indices = replicate 27 p"
proof -
  have all: "\<And>i. i \<in> set valid_lip_indices \<Longrightarrow> i < n"
    using valid_lip_indices_bound assms by fastforce
  have "map ((!) (replicate n p)) valid_lip_indices = map (\<lambda>i. p) valid_lip_indices"
    using all by (intro map_cong) simp_all
  then show ?thesis
    by (simp add: map_replicate_const length_valid_lip_indices)
qed

lemma np_array2_replicate: "np_array2 (replicate n r) = Inr (replicate n r)"
  by (cases n) (simp_all add: np_array2_def list_all_iff)

lemma process_frame_zeros:
  assumes "468 \<le> n"
  shows "process_frame (replicate n (replicate d (Num 0))) pfs =
     (if pfs = [] then Inr [replicate (27 * d) (Num 0)]
      else case np_sub1 (replicate (27 * d) (Num 0)) (last pfs) of
             Inl e \<Rightarrow> Inl e
           | Inr movement \<Rightarrow> Inr (pfs @ [replicate (27 * d) (Num 0) @ movement]))"
  using assms
  by (simp add: process_frame_def filter_valid_lip_indices valid_lip_indices_nonempty
      lip_landmarks_replicate np_array2_replicate
      normalize_zeros concat_replicate_replicate Let_def)

section \<open>The loop over the frames\<close>

lemma process_frame_short: "\<not> full_mesh f \<Longrightarrow> process_frame f pfs = Inr pfs"
  by (simp add: process_frame_def full_mesh_def)

lemma length_axis0_reduce [simp]: "length (axis0_reduce f m) = ncols m"
  by (simp add: axis0_reduce_def)

lemma normalize_lengths:
  assumes "list_all (\<lambda>r. length r = ncols rows) rows"
  shows "map length (normalize_lip_array rows) = map length rows"
proof -
  let ?mc = "axis0_reduce np_mean rows"
  let ?centered = "map (\<lambda>r. map (\<lambda>(x, c). fsub x c) (zip r ?mc)) rows"
  have c: "map length ?centered = map length rows"
    using assms by (simp add: list_all_iff)
  have "map length (map (map g) ?centered) = map length rows" for g :: "npfloat \<Rightarrow> npfloat"
    using c by (simp add: comp_def)
  with c show ?thesis
    by (simp add: normalize_lip_array_def Let_def comp_def)
qed

lemma length_flat:
  assumes "list_all (\<lambda>r. length r = ncols rows) rows"
  shows "length (concat (normalize_lip_array rows)) = length rows * ncols rows"
proof -
  have "length (concat (normalize_lip_array rows)) = sum_list (map length rows)"
    by (simp add: length_concat normalize_lengths [OF assms])
  also have "map length rows = map (\<lambda>r. ncols rows) rows"
    using assms by (intro map_cong) (simp_all add: list_all_iff)
  finally show ?thesis by (simp add: sum_list_triv map_replicate_const sum_list_replicate)
qed

lemma np_array2_Inr: "np_array2 rows = Inr a \<Longrightarrow> a = rows \<and> list_all (\<lambda>r. length r = ncols rows) rows"
  by (simp add: np_array2_def split: if_splits)

lemma hd_valid_lip_indices: "valid_lip_indices = 13 # tl valid_lip_indices"
  by (simp add: valid_lip_indices_def)

lemma process_frame_full:
  assumes "full_mesh f" and "process_frame f pfs = Inr r"
  shows "\<exists>flat. length flat = 27 * length (f ! 13) \<and>
           (if pfs = [] then r = [flat]
            else \<exists>mv. np_sub1 flat (last pfs) = Inr mv \<and> r = pfs @ [flat @ mv])"
proof -
  let ?rows = "map ((!) f) valid_lip_indices"
  have f: "468 \<le> length f" using assms(1) by (simp add: full_mesh_def)
  have nc: "ncols ?rows = length (f ! 13)"
    by (subst hd_valid_lip_indices) simp
  from assms(2) f obtain a where a: "np_array2 ?rows = Inr a"
    by (auto simp add: process_frame_def filter_valid_lip_indices valid_lip_indices_nonempty
        Let_def split: sum.splits)
  then have ar: "a = ?rows" and all: "list_all (\<lambda>r. length r = ncols ?rows) ?rows"
    using np_array2_Inr by blast+
  let ?flat = "concat (normalize_lip_array ?rows)"
  have len: "length ?flat = 27 * length (f ! 13)"
    using length_flat [OF all] by (simp add: nc length_valid_lip_indices)
  have "if pfs = [] then r = [?flat]
        else \<exists>mv. np_sub1 ?flat (last pfs) = Inr mv \<and> r = pfs @ [?flat @ mv]"
    using assms(2) f a ar
    by (auto simp add: process_frame_def filter_valid_lip_indices valid_lip_indices_nonempty
        Let_def split: sum.splits if_splits)
  with len show ?thesis by blast
qed

lemma np_sub1_lengths:
  assumes "np_sub1 xs ys = Inr mv" and "length xs \<noteq> 1" and "length ys \<noteq> 1"
  shows "length ys = length xs \<and> length mv = length xs"
  using assms by (auto simp add: np_sub1_def split: if_splits)

lemma process_frame_appends:
  assumes "process_frame f pfs = Inr r"
  shows "\<exists>ext. r = pfs @ ext \<and> length ext = (if full_mesh f then 1 else 0)"
proof (cases "full_mesh f")
  case True
  from process_frame_full [OF True assms] show ?thesis
    using True by (auto split: if_splits)
next
  case False
  then show ?thesis using assms by (simp add: process_frame_short)
qed



section \<open>The pipeline on the sample frames\<close>

lemma zero_frame_replicate: "zero_frame = replicate 468 (replicate 3 (Num 0))"
  by (simp add: zero_frame_def numeral_3_eq_3)

lemma short_frame_not_full: "\<not> full_mesh short_frame"
  by (simp add: full_mesh_def short_frame_def)

lemma zero_frame_full: "full_mesh zero_frame"
  by (simp add: full_mesh_def zero_frame_def)

lemma bare_frame_full: "full_mesh bare_frame"
  by (simp add: full_mesh_def bare_frame_def)

lemma process_frame_zero_first: "process_frame zero_frame [] = Inr [replicate 81 (Num 0)]"
  by (simp add: zero_frame_replicate process_frame_zeros)

lemma np_sub1_zeros:
  "np_sub1 (replicate k (Num 0)) (replicate k (Num 0)) = Inr (replicate k (Num 0))"
  by (simp add: np_sub1_def zip_replicate)

lemma process_frame_zero_second:
  "process_frame zero_frame [replicate 81 (Num 0)] =
     Inr [replicate 81 (Num 0), replicate 162 (Num 0)]"
proof -
  have "replicate 81 (Num 0) @ replicate 81 (Num 0) = replicate 162 (Num (0::real))"
    by (simp add: replicate_add [symmetric])
  then show ?thesis
    by (simp add: zero_frame_replicate process_frame_zeros np_sub1_zeros)
qed

lemma process_frame_zero_third:
  "process_frame zero_frame [replicate 81 (Num 0), replicate 162 (Num 0)] =
     Inl (BroadcastMismatch 81 162)"
  by (simp add: zero_frame_replicate process_frame_zeros np_sub1_def)

lemma replicate_50: "replicate 50 v = v # replicate 49 v"
proof -
  have "(50::nat) = Suc 49" by simp
  then show ?thesis by (simp only: replicate_Suc)
qed

lemma pad_single:
  "fix_length [v] = replicate 50 v'" if "v' = v" "v = map (\<lambda>_. Num 0) v" for v v' :: feature
proof -
  have "fix_length [v] = v # replicate 49 (map (\<lambda>_. Num 0) v)"
    by (simp add: fix_length_def pad_frames_eq max_frames_def)
  also have "\<dots> = v # replicate 49 v" using that(2) by simp
  also have "\<dots> = replicate 50 v" by (simp only: replicate_50)
  finally show ?thesis using that(1) by simp
qed

lemma torch_tensor_replicate: "torch_tensor (replicate n v) = Inr (replicate n v)"
  by (cases n) (simp_all add: torch_tensor_def list_all_iff)

lemma preprocess_zero_frame:
  "preprocess_landmarks [zero_frame] = Inr [replicate 50 (replicate 81 (Num 0))]"
proof -
  have "fix_length [replicate 81 (Num 0)] = replicate 50 (replicate 81 (Num 0))"
    by (rule pad_single) (simp_all add: map_replicate_const)
  then show ?thesis
    by (simp add: preprocess_landmarks_def process_frame_zero_first torch_tensor_replicate)
qed

lemma movement_patterns_single [simp]: "movement_patterns [rows] = []"
  by (simp add: movement_patterns_def axis1_reduce_def)

lemma threshold_phonemes_single:
  "threshold_phonemes lor lwr [] = vowel_rule lor lwr @ labial_rule lwr"
  by (simp add: threshold_phonemes_def fricative_rule_def rapid_movements_def stop_rule_def
      movement_stops_def movement_rule_def)

lemma foldl_fmaximum_zeros [simp]: "foldl fmaximum (Num 0) (replicate k (Num 0)) = Num 0"
  by (induction k) simp_all

lemma foldl_fminimum_zeros [simp]: "foldl fminimum (Num 0) (replicate k (Num 0)) = Num 0"
  by (induction k) simp_all

lemma np_range_zeros: "np_range (replicate (Suc k) (Num 0)) = Inr (Num 0)"
  by (simp add: np_range_def)

lemma analyze_zero_tensor:
  "analyze_lip_patterns [replicate 50 (replicate 81 (Num 0))] = Some ''Ah''"
proof -
  have s1: "shape1 [replicate 50 (replicate 81 (Num 0))] = 50"
    by (simp add: shape1_def)
  have s2: "shape2 [replicate 50 (replicate 81 (Num 0))] = 81"
    by (simp add: shape2_def replicate_50)
  have r: "np_range (replicate 50 (Num 0)) = Inr (Num 0)"
    using np_range_zeros [of 49] by simp
  show ?thesis
    by (simp add: analyze_lip_patterns_def s1 s2 take_coord_def map_replicate_const
        detect_phonemes_def r threshold_phonemes_single vowel_rule_def labial_rule_def
        phonemes_to_text_def movement_intensity_single)
qed

lemma predict_zero_frame:
  "predict_lip_reading no_library initial_globals sample_clock [zero_frame] =
     \<lparr>reply = Phrase ''Ah'', confidence = Num (1 / 10), processing_time = 1\<rparr>"
  by (simp add: predict_lip_reading_def preprocess_zero_frame predict_text_def
      initial_globals_def analyze_zero_tensor calculate_confidence_single sample_clock_def)

section \<open>Confidence\<close>

text \<open>A single phoneme that is not a vowel (the fallbacks H and M of the classifier) takes
  the \<^verbatim>\<open>elif len(phonemes) == 1\<close> branch of \<open>phonemes_to_text\<close>, which has no
  \<^verbatim>\<open>return\<close> for it: the function returns \<open>None\<close>, and the handler then answers with
  the error response although \<open>calculate_confidence\<close> has run.\<close>

lemma phonemes_to_text_falls_through:
  "phonemes_to_text ''H'' intensity opening_variance = None"
  "phonemes_to_text ''M'' intensity opening_variance = None"
  by (simp_all add: phonemes_to_text_def)

lemma predict_without_text:
  assumes "preprocess_landmarks ls = Inr t" and "predict_text lib g t = None"
  shows "predict_lip_reading lib g clk ls = error_response clk TextNotString"
  using assms by (simp add: predict_lip_reading_def)

text \<open>
  C1. Whenever the handler of \<^verbatim>\<open>app.py\<close> answers from its success branch (the reply
  is a phrase, not the error text), the confidence of the response is a number in the
  closed interval from 0.1 to 1.0: it is the clamp \<^verbatim>\<open>min(1.0, max(0.1, .))\<close> of the
  linear combination of total variance, movement intensity and lip opening variance.
\<close>

theorem confidence_in_unit_range:
  assumes "is_phrase (reply (predict_lip_reading lib g clk ls))"
  shows "\<exists>c. confidence (predict_lip_reading lib g clk ls) = Num c \<and> 1 / 10 \<le> c \<and> c \<le> 1"
proof (cases "preprocess_landmarks ls")
  case (Inl e)
  then show ?thesis using assms by (simp add: predict_lip_reading_def error_response_def)
next
  case (Inr t)
  show ?thesis
  proof (cases "predict_text lib g t")
    case None
    then show ?thesis using assms Inr
      by (simp add: predict_lip_reading_def error_response_def)
  next
    case (Some s)
    then have "confidence (predict_lip_reading lib g clk ls) = calculate_confidence t"
      using Inr by (simp add: predict_lip_reading_def)
    then show ?thesis using calculate_confidence_range [of t] by simp
  qed
qed

theorem confidence_in_unit_range_witness:
  "is_phrase (reply (predict_lip_reading no_library initial_globals sample_clock [zero_frame])) \<and>
   (\<exists>c. confidence (predict_lip_reading no_library initial_globals sample_clock [zero_frame]) = Num c
        \<and> 1 / 10 \<le> c \<and> c \<le> 1)"
proof -
  have h: "is_phrase (reply (predict_lip_reading no_library initial_globals sample_clock [zero_frame]))"
    by (simp add: predict_zero_frame)
  from confidence_in_unit_range [OF h] h show ?thesis by blast
qed

text \<open>
  C4. On every input on which the preprocessing of \<^verbatim>\<open>app.py\<close> succeeds, the tensor
  keeps its batch dimension of size 1, so the difference along axis 0 is empty, the
  movement intensity is NaN, the linear combination is NaN and the clamp evaluates to
  0.1, whatever the landmark values are; this is the value \<open>calculate_confidence\<close>
  returns, and the confidence of every response of the success branch.
\<close>

theorem success_confidence_is_floor:
  assumes "preprocess_landmarks ls = Inr t"
  shows "movement_intensity t = NaN \<and> confidence_score t = NaN \<and>
         calculate_confidence t = Num (1 / 10) \<and>
         confidence (predict_lip_reading lib g clk ls) =
           (if is_phrase (reply (predict_lip_reading lib g clk ls)) then Num (1 / 10) else Num 0)"
proof -
  from preprocess_shape [OF assms] obtain rows where t: "t = [rows]" by blast
  have c: "calculate_confidence t = Num (1 / 10)"
    by (simp add: t calculate_confidence_single)
  have "confidence (predict_lip_reading lib g clk ls) =
          (if is_phrase (reply (predict_lip_reading lib g clk ls)) then Num (1 / 10) else Num 0)"
    using assms c
    by (cases "predict_text lib g t") (simp_all add: predict_lip_reading_def error_response_def)
  then show ?thesis
    using c by (simp add: t movement_intensity_single confidence_score_single)
qed

theorem success_confidence_is_floor_witness:
  "preprocess_landmarks [zero_frame] = Inr [replicate 50 (replicate 81 (Num 0))] \<and>
   calculate_confidence [replicate 50 (replicate 81 (Num 0))] = Num (1 / 10) \<and>
   confidence (predict_lip_reading no_library initial_globals sample_clock [zero_frame]) = Num (1 / 10)"
  using success_confidence_is_floor [OF preprocess_zero_frame, of no_library initial_globals sample_clock]
    preprocess_zero_frame predict_zero_frame
  by simp

section \<open>Error responses of the preprocessing\<close>

lemma process_frames_no_full:
  "\<forall>f\<in>set ls. \<not> full_mesh f \<Longrightarrow> process_frames ls pfs = Inr pfs"
  by (induction ls arbitrary: pfs) (simp_all add: process_frame_short)

text \<open>
  C8. When no frame of the input has the full mesh of 468 points (no frames at all, or
  only shorter frames), no frame yields lip points: the preprocessing of \<^verbatim>\<open>app.py\<close>
  raises its ValueError "No valid lip landmarks found", and the handler, which is total,
  answers with the error text and confidence 0.0.
\<close>

theorem empty_input_is_error_response:
  assumes "\<forall>f\<in>set ls. length f < 468"
  shows "preprocess_landmarks ls = Inl (ValueError ''No valid lip landmarks found'') \<and>
         predict_lip_reading lib g clk ls =
           \<lparr>reply = ErrorText (ValueError ''No valid lip landmarks found''),
            confidence = Num 0, processing_time = end_time clk - start_time clk\<rparr>"
proof -
  have "\<forall>f\<in>set ls. \<not> full_mesh f" using assms by (auto simp add: full_mesh_def)
  then have "process_frames ls [] = Inr []" by (rule process_frames_no_full)
  then have "preprocess_landmarks ls = Inl (ValueError ''No valid lip landmarks found'')"
    by (simp add: preprocess_landmarks_def)
  then show ?thesis by (simp add: predict_lip_reading_def error_response_def)
qed

theorem empty_input_is_error_response_witness:
  "preprocess_landmarks [] = Inl (ValueError ''No valid lip landmarks found'') \<and>
   predict_lip_reading no_library initial_globals sample_clock [short_frame, []] =
     \<lparr>reply = ErrorText (ValueError ''No valid lip landmarks found''),
      confidence = Num 0, processing_time = 1\<rparr>"
  using empty_input_is_error_response [of "[]" no_library initial_globals sample_clock]
    empty_input_is_error_response [of "[short_frame, []]" no_library initial_globals sample_clock]
  by (simp add: short_frame_def sample_clock_def)

lemma process_frame_keeps_first_two:
  assumes "2 \<le> length pfs" and "process_frame f pfs = Inr r"
  shows "2 \<le> length r \<and> r ! 0 = pfs ! 0 \<and> r ! 1 = pfs ! 1"
proof -
  from process_frame_appends [OF assms(2)] obtain ext where "r = pfs @ ext" by blast
  then show ?thesis using assms(1) by (auto simp add: nth_append)
qed

lemma process_frames_keeps_first_two:
  "2 \<le> length pfs \<Longrightarrow> process_frames fs pfs = Inr r \<Longrightarrow>
   2 \<le> length r \<and> r ! 0 = pfs ! 0 \<and> r ! 1 = pfs ! 1"
proof (induction fs arbitrary: pfs)
  case Nil
  then show ?case by simp
next
  case (Cons f fs)
  from Cons.prems(2) obtain r1 where r1: "process_frame f pfs = Inr r1"
    and rest: "process_frames fs r1 = Inr r"
    by (auto split: sum.splits)
  from process_frame_keeps_first_two [OF Cons.prems(1) r1]
  have "2 \<le> length r1" "r1 ! 0 = pfs ! 0" "r1 ! 1 = pfs ! 1" by simp_all
  with Cons.IH [OF _ rest] show ?case by simp
qed

lemma process_frame_second:
  assumes "full_mesh f" and "27 \<le> length v" and "process_frame f [v] = Inr r"
  shows "length r = 2 \<and> r ! 0 = v \<and> length (r ! 1) = 2 * length v"
proof -
  from process_frame_full [OF assms(1,3)] obtain flat mv where
    len: "length flat = 27 * length (f ! 13)" and
    mv: "np_sub1 flat v = Inr mv" and r: "r = [v, flat @ mv]"
    by auto
  have "length flat \<noteq> 1" using len by presburger
  moreover have "length v \<noteq> 1" using assms(2) by simp
  ultimately have "length v = length flat \<and> length mv = length flat"
    using np_sub1_lengths [OF mv] by simp
  then show ?thesis using r by simp
qed

lemma process_frames_after_first:
  "27 \<le> length v \<Longrightarrow> \<exists>f\<in>set fs. full_mesh f \<Longrightarrow> process_frames fs [v] = Inr r \<Longrightarrow>
   2 \<le> length r \<and> r ! 0 = v \<and> length (r ! 1) = 2 * length v"
proof (induction fs)
  case Nil
  then show ?case by simp
next
  case (Cons f fs)
  from Cons.prems(3) obtain r1 where r1: "process_frame f [v] = Inr r1"
    and rest: "process_frames fs r1 = Inr r"
    by (auto split: sum.splits)
  show ?case
  proof (cases "full_mesh f")
    case True
    from process_frame_second [OF True Cons.prems(1) r1]
    have a: "length r1 = 2" "r1 ! 0 = v" "length (r1 ! 1) = 2 * length v" by simp_all
    then have "2 \<le> length r1" by simp
    from process_frames_keeps_first_two [OF this rest] a show ?thesis by simp
  next
    case False
    then have "r1 = [v]" using r1 by (simp add: process_frame_short)
    moreover have "\<exists>f\<in>set fs. full_mesh f" using Cons.prems(2) False by auto
    ultimately show ?thesis using Cons.IH [OF Cons.prems(1)] rest by simp
  qed
qed

lemma process_frames_two_full:
  "2 \<le> length (filter full_mesh fs) \<Longrightarrow>
   \<forall>f\<in>set fs. full_mesh f \<longrightarrow> (\<forall>p\<in>set f. p \<noteq> []) \<Longrightarrow>
   process_frames fs [] = Inr r \<Longrightarrow>
   2 \<le> length r \<and> 0 < length (r ! 0) \<and> length (r ! 1) = 2 * length (r ! 0)"
proof (induction fs)
  case Nil
  then show ?case by simp
next
  case (Cons f fs)
  from Cons.prems(3) obtain r1 where r1: "process_frame f [] = Inr r1"
    and rest: "process_frames fs r1 = Inr r"
    by (auto split: sum.splits)
  show ?case
  proof (cases "full_mesh f")
    case True
    from process_frame_full [OF True r1] obtain flat where
      len: "length flat = 27 * length (f ! 13)" and r1v: "r1 = [flat]" by auto
    have "f ! 13 \<in> set f" using True by (simp add: full_mesh_def)
    then have "f ! 13 \<noteq> []" using Cons.prems(2) True by simp
    then have l27: "27 \<le> length flat" using len by (cases "f ! 13") simp_all
    have "1 \<le> length (filter full_mesh fs)" using Cons.prems(1) True by simp
    then have "\<exists>f\<in>set fs. full_mesh f"
      by (metis One_nat_def Suc_le_lessD filter_False length_greater_0_conv)
    from process_frames_after_first [OF l27 this] rest r1v l27 show ?thesis by auto
  next
    case False
    then have "r1 = []" using r1 by (simp add: process_frame_short)
    then show ?thesis using Cons.IH rest Cons.prems(1,2) False by simp
  qed
qed

lemma process_frame_errors:
  assumes "process_frame f pfs = Inl e"
  shows "e = InhomogeneousShape \<or> (\<exists>m n. e = BroadcastMismatch m n)"
  using assms
  by (auto simp add: process_frame_def np_array2_def np_sub1_def Let_def
      split: if_splits sum.splits)

lemma process_frames_errors:
  "process_frames fs pfs = Inl e \<Longrightarrow>
   e = InhomogeneousShape \<or> (\<exists>m n. e = BroadcastMismatch m n)"
proof (induction fs arbitrary: pfs)
  case Nil
  then show ?case by simp
next
  case (Cons f fs)
  show ?case
  proof (cases "process_frame f pfs")
    case (Inl e')
    then have "e' = e" using Cons.prems by simp
    then show ?thesis using process_frame_errors [OF Inl] by simp
  next
    case (Inr r)
    then show ?thesis using Cons.prems Cons.IH [of r] by simp
  qed
qed

text \<open>
  C3, as amended. For every input with two or more full-mesh frames in which every point of
  a full-mesh frame has at least one coordinate, the preprocessing of \<^verbatim>\<open>app.py\<close>
  raises, and the handler answers with the error text and confidence 0.0. The exception is
  raised either inside the loop over the frames (by \<^verbatim>\<open>np.array\<close> on the lip points of
  a frame, or by the subtraction of a previous vector of another width), or, when the loop
  completes, by the tensor construction: the first two feature vectors then have the widths
  W and 2W with W positive (the first frame carries its coordinates only, the second its
  coordinates and the displacement), so the list is ragged.
\<close>

theorem two_full_frames_error_response:
  assumes "2 \<le> length (filter full_mesh ls)"
    and "\<forall>f\<in>set ls. full_mesh f \<longrightarrow> (\<forall>p\<in>set f. p \<noteq> [])"
  shows "\<exists>e. preprocess_landmarks ls = Inl e \<and>
             predict_lip_reading lib g clk ls =
               \<lparr>reply = ErrorText e, confidence = Num 0,
                processing_time = end_time clk - start_time clk\<rparr> \<and>
             ((process_frames ls [] = Inl e \<and>
               (e = InhomogeneousShape \<or> (\<exists>m n. e = BroadcastMismatch m n))) \<or>
              (\<exists>pfs. process_frames ls [] = Inr pfs \<and> 2 \<le> length pfs \<and>
                     0 < length (pfs ! 0) \<and> length (pfs ! 1) = 2 * length (pfs ! 0) \<and>
                     torch_tensor (fix_length pfs) = Inl RaggedSequence \<and>
                     e = RaggedSequence))"
proof (cases "process_frames ls []")
  case (Inl e)
  then have "preprocess_landmarks ls = Inl e" by (simp add: preprocess_landmarks_def)
  then show ?thesis
    using Inl process_frames_errors [OF Inl]
    by (simp add: predict_lip_reading_def error_response_def)
next
  case (Inr r)
  from process_frames_two_full [OF assms Inr]
  have two: "2 \<le> length r" and pos: "0 < length (r ! 0)"
    and dbl: "length (r ! 1) = 2 * length (r ! 0)" by simp_all
  have rag: "length (r ! 1) \<noteq> length (r ! 0)" using pos dbl by simp
  have tt: "torch_tensor (fix_length r) = Inl RaggedSequence"
    by (rule fix_length_ragged [OF two rag])
  have "r \<noteq> []" using two by auto
  then have pre: "preprocess_landmarks ls = Inl RaggedSequence"
    using Inr tt by (simp add: preprocess_landmarks_def)
  then have "predict_lip_reading lib g clk ls =
      \<lparr>reply = ErrorText RaggedSequence, confidence = Num 0,
       processing_time = end_time clk - start_time clk\<rparr>"
    by (simp add: predict_lip_reading_def error_response_def)
  with pre Inr two pos dbl tt show ?thesis by blast
qed

lemma process_frames_zero_two:
  "process_frames [zero_frame, zero_frame] [] = Inr [replicate 81 (Num 0), replicate 162 (Num 0)]"
  by (simp add: process_frame_zero_first process_frame_zero_second)

lemma process_frames_zero_three:
  "process_frames (zero_frame # zero_frame # zero_frame # fs) [] = Inl (BroadcastMismatch 81 162)"
  by (simp add: process_frame_zero_first process_frame_zero_second process_frame_zero_third)

lemma bare_frame_replicate: "bare_frame = replicate 468 (replicate 0 (Num 0))"
  by (simp add: bare_frame_def)

lemma process_frame_bare_first: "process_frame bare_frame [] = Inr [[]]"
  by (simp add: bare_frame_replicate process_frame_zeros del: replicate_0)

lemma process_frame_bare_next: "process_frame bare_frame [[]] = Inr [[], []]"
  by (simp add: bare_frame_replicate process_frame_zeros np_sub1_def del: replicate_0)

lemma pad_pair:
  "fix_length [a, b] = a # b # replicate 48 (map (\<lambda>_. Num 0) a)"
  by (simp add: fix_length_def pad_frames_eq max_frames_def)

lemma preprocess_bare_two:
  "preprocess_landmarks [bare_frame, bare_frame] = Inr [replicate 50 []]"
proof -
  have "(50::nat) = Suc (Suc 48)" by simp
  then have "replicate 50 ([]::feature) = [] # [] # replicate 48 []"
    by (simp only: replicate_Suc)
  then show ?thesis
    by (simp add: preprocess_landmarks_def process_frame_bare_first process_frame_bare_next
        pad_pair torch_tensor_def list_all_iff)
qed

lemma analyze_bare_tensor: "analyze_lip_patterns [replicate 50 []] = Some ''Error in analysis''"
  by (simp add: analyze_lip_patterns_def shape1_def take_coord_def shape2_def replicate_50)

lemma predict_bare_two:
  "predict_lip_reading no_library initial_globals sample_clock [bare_frame, bare_frame] =
     \<lparr>reply = Phrase ''Error in analysis'', confidence = Num (1 / 10), processing_time = 1\<rparr>"
  by (simp add: predict_lip_reading_def preprocess_bare_two predict_text_def
      initial_globals_def analyze_bare_tensor calculate_confidence_single sample_clock_def)

text \<open>
  C3 as stated fails: with three full-mesh frames the third displacement (width 81
  against 162) raises inside the loop, before any tensor is built; and two full-mesh frames
  of points without coordinates give vectors of width 0, a tensor, and a response of the
  success branch with confidence 0.1.
\<close>

theorem three_full_frames_fail_in_loop:
  "process_frames [zero_frame, zero_frame, zero_frame] [] = Inl (BroadcastMismatch 81 162) \<and>
   preprocess_landmarks [zero_frame, zero_frame, zero_frame] = Inl (BroadcastMismatch 81 162) \<and>
   length (filter full_mesh [bare_frame, bare_frame]) = 2 \<and>
   predict_lip_reading no_library initial_globals sample_clock [bare_frame, bare_frame] =
     \<lparr>reply = Phrase ''Error in analysis'', confidence = Num (1 / 10), processing_time = 1\<rparr>"
  by (simp add: process_frames_zero_three preprocess_landmarks_def predict_bare_two
      bare_frame_full del: process_frames.simps)

theorem two_full_frames_error_response_witness:
  "process_frames [[[]], zero_frame, zero_frame] [] =
     Inr [replicate 81 (Num 0), replicate 162 (Num 0)] \<and>
   preprocess_landmarks [[[]], zero_frame, zero_frame] = Inl RaggedSequence \<and>
   predict_lip_reading no_library initial_globals sample_clock [[[]], zero_frame, zero_frame] =
     \<lparr>reply = ErrorText RaggedSequence, confidence = Num 0, processing_time = 1\<rparr>"
proof -
  have nf: "\<not> full_mesh [[]]" by (simp add: full_mesh_def)
  have h1: "2 \<le> length (filter full_mesh [[[]], zero_frame, zero_frame])"
    by (simp add: zero_frame_full nf)
  have h2: "\<forall>f\<in>set [[[]], zero_frame, zero_frame]. full_mesh f \<longrightarrow> (\<forall>p\<in>set f. p \<noteq> [])"
    by (simp add: nf) (simp add: zero_frame_def)
  have p: "process_frames [[[]], zero_frame, zero_frame] [] =
      Inr [replicate 81 (Num 0), replicate 162 (Num 0)]"
    using process_frames_zero_two by (simp add: process_frame_short nf)
  from two_full_frames_error_response [OF h1 h2, of no_library initial_globals sample_clock]
  show ?thesis
    by (auto simp add: p sample_clock_def simp del: process_frames.simps)
qed

text \<open>The loop can complete with more than two full-mesh frames when the number of
  coordinates doubles from the third frame on: four frames with 1, 1, 2 and 4 coordinates
  per point give the widths 27, 54, 108 and 216, and the tensor construction raises.\<close>

lemma loop_completes_with_four_frames:
  "process_frames
     [replicate 468 (replicate 1 (Num 0)), replicate 468 (replicate 1 (Num 0)),
      replicate 468 (replicate 2 (Num 0)), replicate 468 (replicate 4 (Num 0))] [] =
     Inr [replicate 27 (Num 0), replicate 54 (Num 0), replicate 108 (Num 0),
          replicate 216 (Num 0)] \<and>
   preprocess_landmarks
     [replicate 468 (replicate 1 (Num 0)), replicate 468 (replicate 1 (Num 0)),
      replicate 468 (replicate 2 (Num 0)), replicate 468 (replicate 4 (Num 0))] =
     Inl RaggedSequence"
proof -
  have a: "replicate 27 (Num 0) @ replicate 27 (Num 0) = replicate 54 (Num (0::real))"
    and b: "replicate 54 (Num 0) @ replicate 54 (Num 0) = replicate 108 (Num (0::real))"
    and c: "replicate 108 (Num 0) @ replicate 108 (Num 0) = replicate 216 (Num (0::real))"
    by (simp_all add: replicate_add [symmetric])
  have p: "process_frames
     [replicate 468 (replicate 1 (Num 0)), replicate 468 (replicate 1 (Num 0)),
      replicate 468 (replicate 2 (Num 0)), replicate 468 (replicate 4 (Num 0))] [] =
     Inr [replicate 27 (Num 0), replicate 54 (Num 0), replicate 108 (Num 0),
          replicate 216 (Num 0)]"
    by (simp add: process_frame_zeros np_sub1_zeros a b c del: replicate.simps)
  have t: "torch_tensor (fix_length [replicate 27 (Num 0), replicate 54 (Num 0),
      replicate 108 (Num 0), replicate 216 (Num 0)]) = Inl RaggedSequence"
    by (rule fix_length_ragged) simp_all
  show ?thesis
    unfolding preprocess_landmarks_def p using p t by simp
qed

section \<open>Padding and truncation\<close>

text \<open>
  C6, as amended. A processed sequence shorter than the cap of 50 is extended to length
  exactly 50 by appending all-zero vectors whose width is the width of the first
  processed frame (\<^verbatim>\<open>np.zeros_like(processed_frames[0])\<close>).
\<close>

theorem padding_has_width_of_first_frame:
  assumes "pfs \<noteq> []" and "length pfs < max_frames"
  shows "fix_length pfs =
           pfs @ replicate (max_frames - length pfs) (replicate (length (pfs ! 0)) (Num 0)) \<and>
         length (fix_length pfs) = 50"
  using assms by (simp add: fix_length_def pad_frames_eq map_replicate_const max_frames_def)

theorem padding_has_width_of_first_frame_witness:
  "fix_length [replicate 81 (Num 0), replicate 162 (Num 0)] =
     [replicate 81 (Num 0), replicate 162 (Num 0)] @ replicate 48 (replicate 81 (Num 0)) \<and>
   length (fix_length [replicate 81 (Num 0), replicate 162 (Num 0)]) = 50"
  using padding_has_width_of_first_frame [of "[replicate 81 (Num 0), replicate 162 (Num 0)]"]
  by (simp add: max_frames_def)

text \<open>
  C6 as stated fails: after two full-mesh frames the last real vector has width 162, the
  padding vectors have width 81.
\<close>

theorem padding_not_width_of_last_frame:
  "process_frames [zero_frame, zero_frame] [] = Inr [replicate 81 (Num 0), replicate 162 (Num 0)] \<and>
   length (last [replicate 81 (Num 0), replicate 162 (Num (0::real))]) = 162 \<and>
   length (fix_length [replicate 81 (Num 0), replicate 162 (Num 0)] ! 2) = 81"
  by (simp add: process_frames_zero_two pad_pair del: process_frames.simps)













section \<open>Determinism\<close>

lemma reachable_model_None: "reachable g \<Longrightarrow> model g = None"
  by (induction rule: reachable.induct) (simp_all add: initial_globals_def load_model_def split: option.splits)

lemma predict_text_no_model: "model g = None \<Longrightarrow> predict_text lib g t = analyze_lip_patterns t"
  by (simp add: predict_text_def)

text \<open>
  C2. The text and the confidence of a response of \<^verbatim>\<open>app.py\<close> are determined by the
  landmark sequence alone: two runs on the same input give the same text and the same
  confidence, whatever the process state (any state reachable by loading the module and
  calling \<open>load_model\<close>, with or without a tokenizer), the library behind the unused
  model branch and the clock readings are. Only the processing time may differ.
\<close>

theorem output_independent_of_process_state:
  assumes "reachable g1" and "reachable g2"
  shows "reply (predict_lip_reading lib1 g1 clk1 ls) = reply (predict_lip_reading lib2 g2 clk2 ls) \<and>
         confidence (predict_lip_reading lib1 g1 clk1 ls) =
         confidence (predict_lip_reading lib2 g2 clk2 ls)"
proof -
  have "predict_text lib1 g1 t = predict_text lib2 g2 t" for t
    using assms by (simp add: predict_text_no_model reachable_model_None)
  then show ?thesis
    by (cases "preprocess_landmarks ls")
       (simp_all add: predict_lip_reading_def error_response_def Let_def split: option.splits)
qed

theorem output_independent_of_process_state_witness:
  "reply (predict_lip_reading no_library initial_globals sample_clock [zero_frame]) =
   reply (predict_lip_reading \<lparr>forward = (\<lambda>m t. Inl RaggedSequence), decode = (\<lambda>k l. Inr ''x'')\<rparr>
            (load_model None initial_globals) \<lparr>start_time = 5, end_time = 9\<rparr> [zero_frame]) \<and>
   confidence (predict_lip_reading no_library initial_globals sample_clock [zero_frame]) =
   confidence (predict_lip_reading \<lparr>forward = (\<lambda>m t. Inl RaggedSequence), decode = (\<lambda>k l. Inr ''x'')\<rparr>
            (load_model None initial_globals) \<lparr>start_time = 5, end_time = 9\<rparr> [zero_frame])"
proof -
  have r1: "reachable initial_globals" by (rule reachable.start)
  have r2: "reachable (load_model None initial_globals)" by (rule reachable.load [OF r1])
  show ?thesis by (rule output_independent_of_process_state [OF r1 r2])
qed

section \<open>The heuristic classifier\<close>

lemma vowel_rule_Nil: "vowel_rule lor lwr = [] \<longleftrightarrow> \<not> fgt lor (Num (5 / 1000))"
proof (cases lor)
  case (Num r)
  then show ?thesis by (auto simp add: vowel_rule_def)
next
  case NaN
  then show ?thesis by (simp add: vowel_rule_def)
qed

text \<open>
  C10. For every input, \<open>detect_phonemes\<close> returns a non-empty list and raises nothing:
  when the ranges are computed and no threshold rule appends a phoneme, the fallback is H
  if the lip opening range exceeds 0.001, else M if the lip width range exceeds 0.001, else
  the default A; when a rule fires the result is what the rules appended; and when a range
  cannot be computed (the exception of the source) the result is the fixed list H, E, L, L, O.
\<close>

theorem classifier_never_empty:
  "detect_phonemes lm x y \<noteq> [] \<and>
   (\<forall>lor lwr. np_range (concat y) = Inr lor \<longrightarrow> np_range (concat x) = Inr lwr \<longrightarrow>
      threshold_phonemes lor lwr (movement_patterns lm) = [] \<longrightarrow>
      detect_phonemes lm x y =
        (if fgt lor (Num (1 / 1000)) then ''H''
         else if fgt lwr (Num (1 / 1000)) then ''M'' else ''A'')) \<and>
   (\<forall>lor lwr. np_range (concat y) = Inr lor \<longrightarrow> np_range (concat x) = Inr lwr \<longrightarrow>
      threshold_phonemes lor lwr (movement_patterns lm) \<noteq> [] \<longrightarrow>
      detect_phonemes lm x y = threshold_phonemes lor lwr (movement_patterns lm)) \<and>
   ((\<exists>e. np_range (concat y) = Inl e) \<or> (\<exists>e. np_range (concat x) = Inl e) \<longrightarrow>
      detect_phonemes lm x y = ''HELLO'')"
  by (auto simp add: detect_phonemes_def Let_def split: sum.splits)

theorem classifier_never_empty_witness:
  "detect_phonemes [[[Num 0, Num 0]]] [[Num 0]] [[Num 0]] = ''A'' \<and>
   detect_phonemes [[[Num 0, Num 0]]] [[Num 0]] [[Num 0, Num (2 / 1000)]] = ''H'' \<and>
   detect_phonemes [[[Num 0, Num 0]]] [[Num 0, Num (2 / 1000)]] [[Num 0]] = ''M'' \<and>
   detect_phonemes [[[Num 0, Num 0]]] [] [[Num 0]] = ''HELLO'' \<and>
   detect_phonemes [[[Num 0, Num 0]]] [] [[Num 0]] \<noteq> []"
proof -
  note t = threshold_phonemes_single
  have a: "detect_phonemes [[[Num 0, Num 0]]] [[Num 0]] [[Num 0]] = ''A''"
    using classifier_never_empty [of "[[[Num 0, Num 0]]]" "[[Num 0]]" "[[Num 0]]"]
    by (simp add: np_range_def t vowel_rule_def labial_rule_def)
  have h: "detect_phonemes [[[Num 0, Num 0]]] [[Num 0]] [[Num 0, Num (2 / 1000)]] = ''H''"
    using classifier_never_empty [of "[[[Num 0, Num 0]]]" "[[Num 0]]" "[[Num 0, Num (2 / 1000)]]"]
    by (simp add: np_range_def t vowel_rule_def labial_rule_def)
  have m: "detect_phonemes [[[Num 0, Num 0]]] [[Num 0, Num (2 / 1000)]] [[Num 0]] = ''M''"
    using classifier_never_empty [of "[[[Num 0, Num 0]]]" "[[Num 0, Num (2 / 1000)]]" "[[Num 0]]"]
    by (simp add: np_range_def t vowel_rule_def labial_rule_def)
  have e: "detect_phonemes [[[Num 0, Num 0]]] [] [[Num 0]] = ''HELLO''"
    using classifier_never_empty [of "[[[Num 0, Num 0]]]" "[]" "[[Num 0]]"]
    by (simp add: np_range_def)
  show ?thesis using a h m e by simp
qed

section \<open>Guards of the movement metrics\<close>

text \<open>
  C5. For one full-mesh frame at the origin the tensor of \<^verbatim>\<open>app.py\<close> has one element
  along axis 0, and its movement intensity is NaN: the mean over the empty difference is
  not guarded there. On the same array the metrics of \<^verbatim>\<open>app_lightweight.py\<close> take
  the guard and give 0.
\<close>

theorem movement_intensity_unguarded:
  "preprocess_landmarks [zero_frame] = Inr [replicate 50 (replicate 81 (Num 0))] \<and>
   movement_intensity [replicate 50 (replicate 81 (Num 0))] = NaN \<and>
   temporal_metrics [replicate 50 (replicate 81 (Num 0))] = Inr (Num 0, Num 0, Num 0)"
  by (simp add: preprocess_zero_frame movement_intensity_single temporal_metrics_def)

section \<open>Frames below the full mesh\<close>

lemma no_lip_index_iff: "filter (\<lambda>i. i < n) lip_landmarks_indices = [] \<longleftrightarrow> n \<le> 13"
  by (auto simp add: lip_landmarks_indices_def filter_empty_conv)

lemma lip_landmarks_indices_bound: "i \<in> set lip_landmarks_indices \<Longrightarrow> i < 416"
  by (auto simp add: lip_landmarks_indices_def)

lemma length_lip_landmarks_indices: "length lip_landmarks_indices = 51"
  by (simp add: lip_landmarks_indices_def)

lemma all_lip_indices_valid:
  "416 \<le> n \<Longrightarrow> filter (\<lambda>i. i < n) lip_landmarks_indices = lip_landmarks_indices"
  using lip_landmarks_indices_bound by (fastforce simp add: filter_id_conv)

lemma lip_subset_replicate:
  assumes "416 \<le> n"
  shows "map ((!) (replicate n p)) lip_landmarks_indices = replicate 51 p"
proof -
  have "map ((!) (replicate n p)) lip_landmarks_indices = map (\<lambda>i. p) lip_landmarks_indices"
    using lip_landmarks_indices_bound assms by (intro map_cong) fastforce+
  then show ?thesis by (simp add: map_replicate_const length_lip_landmarks_indices)
qed

lemma axis0_reduce_replicate:
  assumes "0 < n"
  shows "axis0_reduce f (replicate n (replicate d c)) = replicate d (f (replicate n c))"
proof -
  have nc: "ncols (replicate n (replicate d c)) = d" using assms by (cases n) simp_all
  have "map (\<lambda>j. f (map (\<lambda>r. r ! j) (replicate n (replicate d c)))) [0..<d]
      = map (\<lambda>j. f (replicate n c)) [0..<d]"
    by (intro map_cong) simp_all
  then show ?thesis by (simp add: axis0_reduce_def nc map_replicate_const)
qed

lemma np_array3_single: "np_array3 [replicate n p] = Inr [replicate n p]"
  by (cases n) (simp_all add: np_array3_def shape1_def shape2_def list_all_iff)

lemma fallback_zeros:
  assumes "0 < n"
  shows "analyze_fallback_patterns [replicate n (replicate 3 (Num 0))] = ''Hi''"
proof -
  have v: "np_var (concat (concat [replicate n (replicate 3 (Num 0))])) = Num 0"
    using assms by (simp add: concat_replicate_replicate np_var_zeros)
  have a: "np_mean (concat (axis1_reduce np_var [replicate n (replicate 3 (Num 0))])) = Num 0"
    using assms
    by (simp add: axis1_reduce_def axis0_reduce_replicate np_var_zeros np_mean_zeros)
  show ?thesis unfolding analyze_fallback_patterns_def Let_def v a by simp
qed

lemma three_zeros: "[Num 0, Num 0, Num 0] = replicate 3 (Num 0)"
  by (simp add: numeral_3_eq_3)

lemma replicate_51_Suc: "replicate 51 v = v # replicate 50 v"
proof -
  have "(51::nat) = Suc 50" by simp
  then show ?thesis by (simp only: replicate_Suc)
qed

lemma metrics_zero_lips:
  "\<exists>m. calculate_movement_metrics [replicate 51 (replicate 3 (Num 0))] = Inr m \<and>
        recognize_speech_pattern m = ''No speech detected''"
proof -
  let ?lip = "[replicate 51 (replicate 3 (Num 0))]"
  have s2: "shape2 ?lip = 3" by (simp add: shape2_def replicate_51_Suc)
  have r: "np_range (replicate 51 (Num 0)) = Inr (Num 0)"
    using np_range_zeros [of 50] by simp
  have t: "temporal_metrics ?lip = Inr (Num 0, Num 0, Num 0)"
    by (simp add: temporal_metrics_def)
  have o: "opening_metrics ?lip = Inr (Num 0, Num 0, Num 0)"
    by (simp add: opening_metrics_def s2 map_replicate_const r np_var_zeros)
  have h: "horizontal_metrics ?lip = Inr (Num 0, Num 0)"
    by (simp add: horizontal_metrics_def s2 map_replicate_const r np_var_zeros)
  have v: "np_var (concat (replicate 51 (replicate 3 (Num 0)))) = Num 0"
    by (simp add: concat_replicate_replicate np_var_zeros)
  show ?thesis
    by (simp add: calculate_movement_metrics_def t o h v recognize_speech_pattern_def)
qed

lemma analyze_short_frame: "analyze_lip_movement [short_frame] = ''No speech detected''"
proof -
  have sf: "short_frame = replicate 467 (replicate 3 (Num 0))"
    by (simp add: short_frame_def three_zeros)
  have s1: "shape1 [replicate 467 (replicate 3 (Num (0::real)))] = 467" by (simp add: shape1_def)
  from metrics_zero_lips obtain m where
    m: "calculate_movement_metrics [replicate 51 (replicate 3 (Num 0))] = Inr m"
       "recognize_speech_pattern m = ''No speech detected''" by blast
  have ne: "lip_landmarks_indices \<noteq> []"
    using length_lip_landmarks_indices by auto
  show ?thesis
    unfolding sf analyze_lip_movement_def np_array3_single
    by (simp add: s1 all_lip_indices_valid lip_subset_replicate ne m Let_def)
qed

lemma analyze_tiny_frame:
  "analyze_lip_movement [replicate 13 [Num 0, Num 0, Num 0]] = ''Hi''"
proof -
  have s1: "shape1 [replicate 13 (replicate 3 (Num (0::real)))] = 13" by (simp add: shape1_def)
  have f: "filter (\<lambda>i. i < 13) lip_landmarks_indices = []"
    by (simp add: no_lip_index_iff)
  show ?thesis
    unfolding three_zeros analyze_lip_movement_def np_array3_single
    by (simp add: s1 f fallback_zeros Let_def)
qed

text \<open>
  C9, as amended. In \<^verbatim>\<open>app.py\<close> a frame with fewer than 468 points is skipped: the
  loop body leaves the processed frames as they are, and there is no fallback. In
  \<^verbatim>\<open>app_lightweight.py\<close> the lip indices are restricted to those below the number of
  points per frame; the fallback analysis over the full frames is taken exactly when that
  number is at most 13 (no lip index is valid), otherwise the metrics are computed on the
  restricted lip subset.
\<close>

theorem short_frames_skipped_or_partial:
  "(\<not> full_mesh f \<longrightarrow> process_frame f pfs = Inr pfs) \<and>
   (ls \<noteq> [] \<longrightarrow> np_array3 ls = Inr a \<longrightarrow>
      analyze_lip_movement ls =
        (if shape1 a \<le> 13 then analyze_fallback_patterns a
         else case calculate_movement_metrics
                     (map (\<lambda>fr. map ((!) fr)
                             (filter (\<lambda>i. i < shape1 a) lip_landmarks_indices)) a) of
                Inl e \<Rightarrow> ''Hello world, this is a test.''
              | Inr m \<Rightarrow> recognize_speech_pattern m))"
  by (auto simp add: process_frame_short analyze_lip_movement_def Let_def no_lip_index_iff)

theorem short_frames_skipped_or_partial_witness:
  "process_frame short_frame [replicate 81 (Num 0)] = Inr [replicate 81 (Num 0)] \<and>
   analyze_lip_movement [replicate 13 [Num 0, Num 0, Num 0]] =
     analyze_fallback_patterns [replicate 13 [Num 0, Num 0, Num 0]] \<and>
   analyze_lip_movement [short_frame] =
     (case calculate_movement_metrics
             [map ((!) short_frame) (filter (\<lambda>i. i < 467) lip_landmarks_indices)] of
        Inl e \<Rightarrow> ''Hello world, this is a test.''
      | Inr m \<Rightarrow> recognize_speech_pattern m)"
proof -
  have a: "np_array3 [replicate 13 [Num 0, Num 0, Num 0]] = Inr [replicate 13 [Num 0, Num 0, Num 0]]"
    by (rule np_array3_single)
  have b: "np_array3 [short_frame] = Inr [short_frame]"
    unfolding short_frame_def by (rule np_array3_single)
  show ?thesis
    using short_frames_skipped_or_partial [of short_frame "[replicate 81 (Num 0)]"
        "[replicate 13 [Num 0, Num 0, Num 0]]" "[replicate 13 [Num 0, Num 0, Num 0]]"]
      short_frames_skipped_or_partial [of short_frame "[]" "[short_frame]" "[short_frame]"]
      a b short_frame_not_full
    by (simp add: shape1_def short_frame_def)
qed

text \<open>
  C9 as stated fails: a frame of 467 points contributes nothing in \<^verbatim>\<open>app.py\<close> (alone it
  gives the error of an input without lip landmarks), and in \<^verbatim>\<open>app_lightweight.py\<close> it
  goes through the lip path, not through the fallback, whose answer would differ.
\<close>

theorem short_frame_is_discarded:
  "length short_frame = 467 \<and>
   process_frames [short_frame, zero_frame] [] = process_frames [zero_frame] [] \<and>
   preprocess_landmarks [short_frame] = Inl (ValueError ''No valid lip landmarks found'') \<and>
   analyze_lip_movement [short_frame] = ''No speech detected'' \<and>
   analyze_fallback_patterns [short_frame] = ''Hi''"
proof -
  have "analyze_fallback_patterns [short_frame] = ''Hi''"
    unfolding short_frame_def three_zeros by (rule fallback_zeros) simp
  moreover have "process_frame short_frame [] = Inr []"
    by (simp add: process_frame_short short_frame_not_full)
  ultimately show ?thesis
    by (simp add: analyze_short_frame preprocess_landmarks_def) (simp add: short_frame_def)
qed

end
